theory Spec2Isabelle
  imports Complex_Main "HOL-Library.AList"
begin

section \<open>The candle bridge: data model\<close>

text \<open>
  The repository holds several variants of one Express/WebSocket bridge. Two of them are
  modelled here: the pass-through bridge (\<^verbatim>\<open>src/index.js\<close>), which forwards every
  finalized 1-minute candle, and the aggregating bridge (the second program of
  \<^verbatim>\<open>src/unnamed/part_000\<close>, from its line 229 on), which folds 1-minute candles into
  coarser timeframes.

  A candle is the object literal built in the message handlers. Its numeric fields come out
  of \<^verbatim>\<open>parseFloat\<close> and are doubles. The four prices are only compared and selected
  (\<^verbatim>\<open>Math.max\<close>, \<^verbatim>\<open>Math.min\<close>, first, last); they are taken to be finite, and finite
  doubles compare as the reals they denote, so a price is a real. The volumes are added, and
  the addition of doubles rounds: the type of a volume is the parameter \<open>'v\<close>, of which
  the code uses \<^verbatim>\<open>+\<close> and \<^verbatim>\<open>0\<close> and the model assumes no law. For the code, \<open>'v\<close> is
  the doubles with their own addition. The timestamp is the exchange's epoch-millisecond
  integer.
\<close>

record 'v candle =
  exchange :: string
  symbol :: string
  timeframe :: string
  timestamp :: int
  "open" :: real
  high :: real
  low :: real
  close :: real
  volume :: 'v

text \<open>
  A JavaScript \<^verbatim>\<open>Map\<close> iterates in insertion order, \<^verbatim>\<open>set\<close> on a present key keeps
  the key's position and \<^verbatim>\<open>delete\<close> removes the entry: an association list with
  \<^const>\<open>AList.update\<close> (replace in place, else append), \<^const>\<open>AList.delete\<close> and
  \<^const>\<open>map_of\<close>. A \<^verbatim>\<open>Set\<close> of user ids is the list of its members in insertion order.
\<close>

type_synonym ('k, 'v) js_map = "('k \<times> 'v) list"

definition has :: "('k, 'v) js_map \<Rightarrow> 'k \<Rightarrow> bool" where
  "has m k = (map_of m k \<noteq> None)"

definition set_add :: "'a list \<Rightarrow> 'a \<Rightarrow> 'a list" where
  "set_add us u = (if u \<in> set us then us else us @ [u])"

definition set_delete :: "'a list \<Rightarrow> 'a \<Rightarrow> 'a list" where
  "set_delete us u = removeAll u us"

definition startsWith :: "string \<Rightarrow> string \<Rightarrow> bool" where
  "startsWith s p = (take (length p) s = p)"

section \<open>Timeframe aggregation (src/unnamed/part\_000, lines 250--278 and 415--444)\<close>

text \<open>
  \<^verbatim>\<open>timeframeToMinutes\<close> reads \<^verbatim>\<open>map[timeframe] || 1\<close> from an object literal. A
  property read on an object literal also finds the members inherited from
  \<^verbatim>\<open>Object.prototype\<close>; each of them is a function or an object, hence truthy, so for
  these twelve names the \<^verbatim>\<open>|| 1\<close> fallback is not taken and the function returns a
  value that is not a number. Every numeric use of such a value goes through
  \<^verbatim>\<open>ToNumber\<close>, which gives NaN.
\<close>

datatype js_value = Num nat | Inherited string

definition timeframe_map :: "(string \<times> nat) list" where
  "timeframe_map =
     [(''1m'', 1), (''5m'', 5), (''15m'', 15), (''30m'', 30), (''1h'', 60), (''4h'', 240)]"

definition object_prototype_members :: "string list" where
  "object_prototype_members =
     [''constructor'', ''toString'', ''toLocaleString'', ''valueOf'', ''hasOwnProperty'',
      ''isPrototypeOf'', ''propertyIsEnumerable'', ''__proto__'', ''__defineGetter__'',
      ''__defineSetter__'', ''__lookupGetter__'', ''__lookupSetter__'']"

definition timeframeToMinutes :: "string \<Rightarrow> js_value" where
  "timeframeToMinutes tf =
     (case map_of timeframe_map tf of
        Some n \<Rightarrow> if n \<noteq> 0 then Num n else Num 1
      | None \<Rightarrow> if tf \<in> set object_prototype_members then Inherited tf else Num 1)"

text \<open>\<^verbatim>\<open>ToNumber\<close>: \<^const>\<open>None\<close> is NaN.\<close>

fun toNumber :: "js_value \<Rightarrow> nat option" where
  "toNumber (Num n) = Some n"
| "toNumber (Inherited _) = None"

text \<open>
  The comparisons \<^verbatim>\<open>len < v\<close>, \<^verbatim>\<open>len > v * 2\<close> and \<^verbatim>\<open>len >= v\<close> of an array length
  with such a value: every comparison with NaN is false.
\<close>

fun js_less :: "nat \<Rightarrow> js_value \<Rightarrow> bool" where
  "js_less len v = (case toNumber v of None \<Rightarrow> False | Some n \<Rightarrow> len < n)"

fun js_greater_twice :: "nat \<Rightarrow> js_value \<Rightarrow> bool" where
  "js_greater_twice len v = (case toNumber v of None \<Rightarrow> False | Some n \<Rightarrow> len > n * 2)"

fun js_greater_eq :: "nat \<Rightarrow> js_value \<Rightarrow> bool" where
  "js_greater_eq len v = (case toNumber v of None \<Rightarrow> False | Some n \<Rightarrow> len \<ge> n)"

text \<open>
  \<^verbatim>\<open>xs.slice(-k)\<close> keeps the last \<open>k\<close> elements (all of them when \<open>k\<close> exceeds the
  length); \<^verbatim>\<open>slice(-0)\<close> and \<^verbatim>\<open>slice(NaN)\<close> are \<^verbatim>\<open>slice(0)\<close>, the whole array.
  \<^verbatim>\<open>xs.slice(k)\<close> drops the first \<open>k\<close> elements.
\<close>

fun slice_last :: "nat option \<Rightarrow> 'a list \<Rightarrow> 'a list" where
  "slice_last None xs = xs"
| "slice_last (Some k) xs = (if k = 0 then xs else drop (length xs - k) xs)"

fun slice_from :: "nat option \<Rightarrow> 'a list \<Rightarrow> 'a list" where
  "slice_from None xs = xs"
| "slice_from (Some k) xs = drop k xs"

text \<open>
  \<^verbatim>\<open>Math.max(...(x # xs))\<close> and \<^verbatim>\<open>Math.min(...(x # xs))\<close> on a non-empty argument list.
  (The empty spread, \<^verbatim>\<open>-Infinity\<close>, is never evaluated: \<^verbatim>\<open>chunk[0].exchange\<close> has
  thrown before.)
\<close>

definition math_max :: "real \<Rightarrow> real list \<Rightarrow> real" where
  "math_max x xs = fold max xs x"

definition math_min :: "real \<Rightarrow> real list \<Rightarrow> real" where
  "math_min x xs = fold min xs x"

datatype js_error = TypeError

text \<open>
  \<^verbatim>\<open>convertToTargetTimeframe(candles, targetTimeframe)\<close>: \<^term>\<open>Inr None\<close> is the
  \<^verbatim>\<open>null\<close> result, \<^term>\<open>Inl TypeError\<close> the exception of \<^verbatim>\<open>chunk[0].exchange\<close> on
  an empty chunk. The volume is the \<^verbatim>\<open>reduce\<close> from 0, left to right, in the addition of
  the volumes' type.
\<close>

definition convertToTargetTimeframe ::
  "('v::{plus,zero}) candle list \<Rightarrow> string \<Rightarrow> js_error + 'v candle option" where
  "convertToTargetTimeframe candles targetTimeframe =
     (let minutes = timeframeToMinutes targetTimeframe in
      if js_less (length candles) minutes then Inr None
      else
        (case slice_last (toNumber minutes) candles of
           [] \<Rightarrow> Inl TypeError
         | c0 # rest \<Rightarrow>
             Inr (Some \<lparr>exchange = exchange c0,
                        symbol = symbol c0,
                        timeframe = targetTimeframe,
                        timestamp = timestamp c0,
                        open = candle.open c0,
                        high = math_max (high c0) (map high rest),
                        low = math_min (low c0) (map low rest),
                        close = close (last (c0 # rest)),
                        volume = foldl (\<lambda>sum c. sum + volume c) 0 (c0 # rest)\<rparr>)))"

text \<open>
  \<^verbatim>\<open>candleBuffers\<close> maps the key \<^verbatim>\<open>userId-exchange-symbol\<close> (the timeframe is not part
  of it) to an object with the buffered candles and the timeframe the buffer was created for.
\<close>

record 'v buffer =
  candles :: "'v candle list"
  targetTimeframe :: string

type_synonym 'v buffers = "(string, 'v buffer) js_map"

definition bufferKey :: "string \<Rightarrow> string \<Rightarrow> string \<Rightarrow> string" where
  "bufferKey userId exch symb = userId @ ''-'' @ exch @ ''-'' @ symb"

text \<open>
  \<^verbatim>\<open>processCandle(candle1m, userId, targetTimeframe)\<close>, with \<^verbatim>\<open>candleBuffers\<close> passed
  in and returned. The second component is what the call did besides: \<^term>\<open>Inr (Some c)\<close>
  when it handed \<open>c\<close> to \<^verbatim>\<open>sendToWorker\<close> (which catches its own failures),
  \<^term>\<open>Inr None\<close> when it sent nothing, \<^term>\<open>Inl e\<close> when it threw. The order is the
  source's: push, cap at twice the required count (keeping the newest), convert, and after a
  conversion drop the first \<^verbatim>\<open>requiredCandles\<close> candles.

  The call is asynchronous: after a conversion it awaits \<^verbatim>\<open>sendToWorker\<close> before it
  drops the candles. The function below is the call from its start to its return with no
  other handler run while it waits. Which candles are folded and sent is settled before the
  wait and does not depend on this; the buffer the call leaves does.
\<close>

definition processCandle ::
  "('v::{plus,zero}) candle \<Rightarrow> string \<Rightarrow> string \<Rightarrow> 'v buffers \<Rightarrow>
     'v buffers \<times> (js_error + 'v candle option)" where
  "processCandle candle1m userId tf candleBuffers =
     (let key = bufferKey userId (exchange candle1m) (symbol candle1m);
          bufs1 = (if \<not> has candleBuffers key
                   then AList.update key \<lparr>candles = [], targetTimeframe = tf\<rparr> candleBuffers
                   else candleBuffers);
          buf = (case map_of bufs1 key of
                   Some b \<Rightarrow> b
                 | None \<Rightarrow> \<lparr>candles = [], targetTimeframe = tf\<rparr>);
          pushed = candles buf @ [candle1m];
          requiredCandles = timeframeToMinutes tf;
          capped = (if js_greater_twice (length pushed) requiredCandles
                    then slice_last (map_option (\<lambda>n. n * 2) (toNumber requiredCandles)) pushed
                    else pushed);
          store = (\<lambda>cs. AList.update key (buf\<lparr>candles := cs\<rparr>) bufs1)
      in if js_greater_eq (length capped) requiredCandles then
           (case convertToTargetTimeframe capped tf of
              Inl e \<Rightarrow> (store capped, Inl e)
            | Inr None \<Rightarrow> (store capped, Inr None)
            | Inr (Some convertedCandle) \<Rightarrow>
                (store (slice_from (toNumber requiredCandles) capped), Inr (Some convertedCandle)))
         else (store capped, Inr None))"

text \<open>The candles kept for a user on an exchange and symbol (none when there is no buffer).\<close>

definition buffered :: "'v buffers \<Rightarrow> string \<Rightarrow> string \<Rightarrow> string \<Rightarrow> 'v candle list" where
  "buffered bufs userId exch symb =
     (case map_of bufs (bufferKey userId exch symb) of None \<Rightarrow> [] | Some b \<Rightarrow> candles b)"

text \<open>
  One subscriber receiving a sequence of base candles, oldest first, each call returning
  before the next starts.
\<close>

fun processCandles ::
  "('v::{plus,zero}) candle list \<Rightarrow> string \<Rightarrow> string \<Rightarrow> 'v buffers \<Rightarrow> 'v buffers" where
  "processCandles [] userId tf bufs = bufs"
| "processCandles (c # cs) userId tf bufs =
     processCandles cs userId tf (fst (processCandle c userId tf bufs))"

text \<open>
  The message handler of the aggregating bridge, from the point where a finalized candle has
  been built: for every subscription key that starts with \<^verbatim>\<open>exchange-symbol-\<close>, the
  target timeframe is \<^verbatim>\<open>subKey.split('-')[2]\<close> and every user of the key gets a
  \<^verbatim>\<open>processCandle\<close>. The handler's \<^verbatim>\<open>try\<close> block ends the loops at the first
  exception. The result is the buffers, the candles sent with their recipients, and the
  exception caught, if any. The handler awaits each \<^verbatim>\<open>processCandle\<close> in turn; the
  functions below are one run of it with no other handler run while it waits.
\<close>

fun split_on :: "char \<Rightarrow> string \<Rightarrow> string list" where
  "split_on d [] = [[]]"
| "split_on d (c # cs) =
     (if c = d then [] # split_on d cs
      else (case split_on d cs of [] \<Rightarrow> [[c]] | p # ps \<Rightarrow> (c # p) # ps))"

text \<open>
  \<^verbatim>\<open>parts[2]\<close>. A key that passed the prefix test has two dashes, so the index is in
  range; out of range the source would read \<^verbatim>\<open>undefined\<close>.
\<close>

fun third_part :: "string list \<Rightarrow> string" where
  "third_part (a # b # c # rest) = c"
| "third_part parts = ''undefined''"

type_synonym 'v deliveries = "('v candle \<times> string) list"

fun forUsers ::
  "('v::{plus,zero}) candle \<Rightarrow> string \<Rightarrow> string list \<Rightarrow> 'v buffers \<Rightarrow>
     'v buffers \<times> 'v deliveries \<times> js_error option" where
  "forUsers c tf [] bufs = (bufs, [], None)"
| "forUsers c tf (userId # users) bufs =
     (case processCandle c userId tf bufs of
        (bufs1, Inl e) \<Rightarrow> (bufs1, [], Some e)
      | (bufs1, Inr sent) \<Rightarrow>
          (case forUsers c tf users bufs1 of
             (bufs2, ds, err) \<Rightarrow>
               (bufs2, (case sent of None \<Rightarrow> [] | Some cc \<Rightarrow> [(cc, userId)]) @ ds, err)))"

fun onCandle ::
  "('v::{plus,zero}) candle \<Rightarrow> (string, string list) js_map \<Rightarrow> 'v buffers \<Rightarrow>
     'v buffers \<times> 'v deliveries \<times> js_error option" where
  "onCandle c [] bufs = (bufs, [], None)"
| "onCandle c ((subKey, users) # rest) bufs =
     (if startsWith subKey (exchange c @ ''-'' @ symbol c @ ''-'') then
        (case forUsers c (third_part (split_on CHR ''-'' subKey)) users bufs of
           (bufs1, ds, Some e) \<Rightarrow> (bufs1, ds, Some e)
         | (bufs1, ds, None) \<Rightarrow>
             (case onCandle c rest bufs1 of (bufs2, ds2, err) \<Rightarrow> (bufs2, ds @ ds2, err)))
      else onCandle c rest bufs)"

text \<open>
  The cap of \<^verbatim>\<open>processCandle\<close> for a required count \<open>n\<close> that is a number: a buffer
  longer than \<open>2n\<close> keeps its newest \<open>2n\<close> candles.
\<close>

definition cap :: "nat \<Rightarrow> 'v candle list \<Rightarrow> 'v candle list" where
  "cap n cs = (if length cs > n * 2 then drop (length cs - n * 2) cs else cs)"

text \<open>
  The derived candle in the words of the specification (section 4.5, step 4), for a
  non-empty chunk: open of the first candle, close of the last, the maximum high, the minimum
  low, the sum of the volumes, the opening time of the first, and the target timeframe. The
  sum is the floating-point one of the specification's numeric semantics: the volumes added
  to 0 one after the other, in the addition of their type.
\<close>

definition derived_candle :: "('v::{plus,zero}) candle list \<Rightarrow> string \<Rightarrow> 'v candle" where
  "derived_candle cs tf =
     \<lparr>exchange = exchange (hd cs), symbol = symbol (hd cs), timeframe = tf,
      timestamp = timestamp (hd cs), open = candle.open (hd cs),
      high = Max (set (map high cs)), low = Min (set (map low cs)),
      close = close (last cs), volume = foldl (+) 0 (map volume cs)\<rparr>"

section \<open>Subscriptions and upstream connections (src/index.js; src/unnamed/part\_000, lines 280--548)\<close>

text \<open>
  The two bridges share the code of \<^verbatim>\<open>connectExchange\<close>, \<^verbatim>\<open>/connect\<close> and
  \<^verbatim>\<open>/disconnect\<close> but for two points: the key of \<^verbatim>\<open>activeConnections\<close> is
  \<^verbatim>\<open>exchange-symbol\<close> in the pass-through bridge and \<^verbatim>\<open>exchange-symbol-1m\<close> in the
  aggregating one, and only the aggregating bridge has \<^verbatim>\<open>candleBuffers\<close>, which its
  \<^verbatim>\<open>/disconnect\<close> clears for the user. The variant is a parameter of the model.
\<close>

datatype variant = PassThrough | Aggregating

text \<open>
  A socket made by \<^verbatim>\<open>new WebSocket(wsUrl)\<close>, with the \<^verbatim>\<open>exchange\<close> and
  \<^verbatim>\<open>symbol\<close> its handlers close over and its \<^verbatim>\<open>readyState\<close>. Sockets are named by
  their position in the list of all sockets ever made.
\<close>

datatype ready_state = CONNECTING | OPEN | CLOSING | CLOSED

text \<open>
  The URL a socket is made for. \<^term>\<open>KlineStream base symb\<close> stands for
  \<^verbatim>\<open>base/ws/<symb.toLowerCase()>@kline_1m\<close>; the lower-cased symbol is not computed.
  \<^term>\<open>Endpoint u\<close> is the URL \<open>u\<close> itself.
\<close>

datatype url = KlineStream string string | Endpoint string

record socket =
  ws_exchange :: string
  ws_symbol :: string
  ws_url :: url
  readyState :: ready_state

text \<open>
  The state: the two registries of the source, the buffers, the sockets, and the pending
  \<^verbatim>\<open>setTimeout\<close> callbacks with their delay in milliseconds and the \<^verbatim>\<open>exchange\<close> and
  \<^verbatim>\<open>symbol\<close> they close over.
\<close>

record 'v bridge =
  userSubscriptions :: "(string, string list) js_map"
  activeConnections :: "(string, nat) js_map"
  candleBuffers :: "'v buffers"
  sockets :: "socket list"
  timers :: "(nat \<times> string \<times> string) list"

definition initial :: "'v bridge" where
  "initial = \<lparr>userSubscriptions = [], activeConnections = [], candleBuffers = [],
              sockets = [], timers = []\<rparr>"

definition subKey :: "string \<Rightarrow> string \<Rightarrow> string \<Rightarrow> string" where
  "subKey exch symb tf = exch @ ''-'' @ symb @ ''-'' @ tf"

definition subPrefix :: "string \<Rightarrow> string \<Rightarrow> string" where
  "subPrefix exch symb = exch @ ''-'' @ symb @ ''-''"

definition connKey :: "variant \<Rightarrow> string \<Rightarrow> string \<Rightarrow> string" where
  "connKey v exch symb =
     (case v of PassThrough \<Rightarrow> exch @ ''-'' @ symb
              | Aggregating \<Rightarrow> exch @ ''-'' @ symb @ ''-1m'')"

text \<open>
  The \<^verbatim>\<open>switch\<close> compares \<^verbatim>\<open>exchange.toLowerCase()\<close> with four lower-case ASCII
  labels. The comparison is decided by lower-casing the ASCII letters alone: the one
  character outside ASCII that lower-cases to an ASCII letter is the Kelvin sign (to
  \<^verbatim>\<open>k\<close>), no label has a \<^verbatim>\<open>k\<close>, and a string with any other character outside ASCII
  keeps one when lower-cased. \<^term>\<open>lowerCaseIs s l\<close> is \<^verbatim>\<open>s.toLowerCase() === l\<close> for
  such a label \<open>l\<close>.
\<close>

definition ascii_lower :: "char \<Rightarrow> char" where
  "ascii_lower c =
     (case map_of (zip ''ABCDEFGHIJKLMNOPQRSTUVWXYZ'' ''abcdefghijklmnopqrstuvwxyz'') c of
        Some l \<Rightarrow> l
      | None \<Rightarrow> c)"

definition lowerCaseIs :: "string \<Rightarrow> string \<Rightarrow> bool" where
  "lowerCaseIs s l = (map ascii_lower s = l)"

text \<open>The \<^verbatim>\<open>switch\<close> of \<^verbatim>\<open>connectExchange\<close>; \<^const>\<open>None\<close> is its \<^verbatim>\<open>default\<close>.\<close>

definition wsUrl :: "string \<Rightarrow> string \<Rightarrow> url option" where
  "wsUrl exch symb =
     (if lowerCaseIs exch ''binance''
        then Some (KlineStream ''wss://fstream.binance.com'' symb)
      else if lowerCaseIs exch ''binance-testnet''
        then Some (KlineStream ''wss://stream.binancefuture.com'' symb)
      else if lowerCaseIs exch ''bybit''
        then Some (Endpoint ''wss://stream.bybit.com/v5/public/linear'')
      else if lowerCaseIs exch ''bybit-testnet''
        then Some (Endpoint ''wss://stream-demo.bybit.com/v5/public/linear'')
      else None)"

text \<open>
  \<^verbatim>\<open>connectExchange(exchange, symbol)\<close>: nothing when the key is registered, nothing but a
  log line for an unsupported exchange, else a new socket. The socket is not registered here:
  \<^verbatim>\<open>activeConnections.set\<close> is in its \<^verbatim>\<open>open\<close> handler.
\<close>

definition connectExchange :: "variant \<Rightarrow> string \<Rightarrow> string \<Rightarrow> 'v bridge \<Rightarrow> 'v bridge" where
  "connectExchange v exch symb s =
     (if has (activeConnections s) (connKey v exch symb) then s
      else
        (case wsUrl exch symb of
           None \<Rightarrow> s
         | Some url \<Rightarrow>
             s\<lparr>sockets := sockets s @
                  [\<lparr>ws_exchange = exch, ws_symbol = symb, ws_url = url,
                    readyState = CONNECTING\<rparr>]\<rparr>))"

text \<open>
  The \<^verbatim>\<open>open\<close> handler of socket \<open>i\<close> registers it under its key. (The subscribe frame
  it sends to Bybit touches none of the state modelled and is left out.)
\<close>

definition onOpen :: "variant \<Rightarrow> nat \<Rightarrow> 'v bridge \<Rightarrow> 'v bridge" where
  "onOpen v i s =
     (let w = sockets s ! i in
      s\<lparr>activeConnections :=
           AList.update (connKey v (ws_exchange w) (ws_symbol w)) i (activeConnections s),
        sockets := (sockets s)[i := w\<lparr>readyState := OPEN\<rparr>]\<rparr>)"

text \<open>
  The \<^verbatim>\<open>close\<close> handler of socket \<open>i\<close> deletes the key and sets a timer of 5000 ms. The
  timer's callback reads \<^verbatim>\<open>userSubscriptions\<close> when it runs.
\<close>

definition onClose :: "variant \<Rightarrow> nat \<Rightarrow> 'v bridge \<Rightarrow> 'v bridge" where
  "onClose v i s =
     (let w = sockets s ! i in
      s\<lparr>activeConnections :=
           AList.delete (connKey v (ws_exchange w) (ws_symbol w)) (activeConnections s),
        sockets := (sockets s)[i := w\<lparr>readyState := CLOSED\<rparr>],
        timers := timers s @ [(5000, ws_exchange w, ws_symbol w)]\<rparr>)"

text \<open>
  The test of the timer's loop, \<^verbatim>\<open>subKey.startsWith(`${exchange}-${symbol}-`) &&
  users.size > 0\<close>, and the callback: \<^verbatim>\<open>connectExchange\<close> at the first entry that
  passes, then \<^verbatim>\<open>break\<close>.
\<close>

definition hasSubscribers :: "(string, string list) js_map \<Rightarrow> string \<Rightarrow> string \<Rightarrow> bool" where
  "hasSubscribers subs exch symb =
     list_ex (\<lambda>(k, users). startsWith k (subPrefix exch symb) \<and> length users > 0) subs"

definition reconnectCallback :: "variant \<Rightarrow> string \<Rightarrow> string \<Rightarrow> 'v bridge \<Rightarrow> 'v bridge" where
  "reconnectCallback v exch symb s =
     (if hasSubscribers (userSubscriptions s) exch symb then connectExchange v exch symb s else s)"

text \<open>\<^verbatim>\<open>ws.close()\<close>: the socket starts closing; its \<^verbatim>\<open>close\<close> event comes later.\<close>

definition ws_close :: "nat \<Rightarrow> socket list \<Rightarrow> socket list" where
  "ws_close i ws =
     (if i < length ws
      then ws[i := (ws ! i)\<lparr>readyState :=
                     (if readyState (ws ! i) = CLOSED then CLOSED else CLOSING)\<rparr>]
      else ws)"

text \<open>
  A request body. A field is \<^const>\<open>None\<close> when the body lacks it; \<^verbatim>\<open>!field\<close> holds for
  a lacking and for an empty field, and a template literal prints a lacking one as
  \<^verbatim>\<open>undefined\<close>. Field values other than strings are outside the model.
\<close>

record request =
  r_exchange :: "string option"
  r_symbol :: "string option"
  r_timeframe :: "string option"
  r_userId :: "string option"

fun falsy :: "string option \<Rightarrow> bool" where
  "falsy None = True"
| "falsy (Some x) = (x = [])"

fun str :: "string option \<Rightarrow> string" where
  "str None = ''undefined''"
| "str (Some x) = x"

text \<open>
  The responses: status 400, the success of \<^verbatim>\<open>/connect\<close> with its \<^verbatim>\<open>subscribers\<close>
  count, the success of \<^verbatim>\<open>/disconnect\<close>.
\<close>

datatype response = Status400 | Connected nat | Disconnected

definition invalid :: "request \<Rightarrow> bool" where
  "invalid req =
     (falsy (r_exchange req) \<or> falsy (r_symbol req) \<or> falsy (r_timeframe req) \<or>
      falsy (r_userId req))"

definition users_of :: "(string, string list) js_map \<Rightarrow> string \<Rightarrow> string list" where
  "users_of subs key = (case map_of subs key of None \<Rightarrow> [] | Some users \<Rightarrow> users)"

text \<open>\<^verbatim>\<open>app.post('/connect')\<close>.\<close>

definition connect :: "variant \<Rightarrow> request \<Rightarrow> 'v bridge \<Rightarrow> 'v bridge \<times> response" where
  "connect v req s =
     (if invalid req then (s, Status400)
      else
        (let exch = str (r_exchange req); symb = str (r_symbol req);
             tf = str (r_timeframe req); userId = str (r_userId req);
             key = subKey exch symb tf;
             subs1 = (if \<not> has (userSubscriptions s) key
                      then AList.update key [] (userSubscriptions s)
                      else userSubscriptions s);
             subs2 = AList.update key (set_add (users_of subs1 key) userId) subs1;
             s1 = s\<lparr>userSubscriptions := subs2\<rparr>;
             s2 = (if \<not> has (activeConnections s1) (connKey v exch symb)
                   then connectExchange v exch symb s1 else s1)
         in (s2, Connected (length (users_of subs2 key)))))"

text \<open>
  \<^verbatim>\<open>app.post('/disconnect')\<close>. \<^verbatim>\<open>hasOtherSubs\<close> is the flag of the scan over the keys
  left after the emptied key has been deleted.
\<close>

definition hasOtherSubs :: "(string, string list) js_map \<Rightarrow> string \<Rightarrow> string \<Rightarrow> bool" where
  "hasOtherSubs subs exch symb = list_ex (\<lambda>(k, users). startsWith k (subPrefix exch symb)) subs"

definition disconnect :: "variant \<Rightarrow> request \<Rightarrow> 'v bridge \<Rightarrow> 'v bridge \<times> response" where
  "disconnect v req s =
     (if invalid req then (s, Status400)
      else
        (let exch = str (r_exchange req); symb = str (r_symbol req);
             tf = str (r_timeframe req); userId = str (r_userId req);
             key = subKey exch symb tf;
             s1 =
               (if has (userSubscriptions s) key then
                  (let users = set_delete (users_of (userSubscriptions s) key) userId;
                       subs1 = AList.update key users (userSubscriptions s)
                   in if length users = 0 then
                        (let subs2 = AList.delete key subs1;
                             baseKey = connKey v exch symb
                         in if \<not> hasOtherSubs subs2 exch symb then
                              (case map_of (activeConnections s) baseKey of
                                 Some i \<Rightarrow>
                                   s\<lparr>userSubscriptions := subs2,
                                     activeConnections := AList.delete baseKey (activeConnections s),
                                     sockets := ws_close i (sockets s)\<rparr>
                               | None \<Rightarrow> s\<lparr>userSubscriptions := subs2\<rparr>)
                            else s\<lparr>userSubscriptions := subs2\<rparr>)
                      else s\<lparr>userSubscriptions := subs1\<rparr>)
                else s);
             s2 = (case v of
                     PassThrough \<Rightarrow> s1
                   | Aggregating \<Rightarrow>
                       s1\<lparr>candleBuffers :=
                            AList.delete (bufferKey userId exch symb) (candleBuffers s1)\<rparr>)
         in (s2, Disconnected)))"

text \<open>
  The events of the single-threaded event loop whose handlers are synchronous and so run to
  completion: the two requests, a socket's \<^verbatim>\<open>open\<close> and \<^verbatim>\<open>close\<close> events (an
  \<^verbatim>\<open>open\<close> only while it is connecting, a \<^verbatim>\<open>close\<close> once), and the oldest pending
  timer running out (all timers have the same delay). These handlers are the only code that
  writes \<^verbatim>\<open>userSubscriptions\<close> and \<^verbatim>\<open>activeConnections\<close>. The message handler is
  asynchronous and is not an event of this loop; it writes \<^verbatim>\<open>candleBuffers\<close> alone and is
  modelled by \<^const>\<open>onCandle\<close> above.
\<close>

datatype event =
  PostConnect request
| PostDisconnect request
| WsOpen nat
| WsClose nat
| TimerFires

fun step :: "variant \<Rightarrow> event \<Rightarrow> 'v bridge \<Rightarrow> 'v bridge" where
  "step v (PostConnect req) s = fst (connect v req s)"
| "step v (PostDisconnect req) s = fst (disconnect v req s)"
| "step v (WsOpen i) s =
     (if i < length (sockets s) \<and> readyState (sockets s ! i) = CONNECTING
      then onOpen v i s else s)"
| "step v (WsClose i) s =
     (if i < length (sockets s) \<and> readyState (sockets s ! i) \<noteq> CLOSED
      then onClose v i s else s)"
| "step v TimerFires s =
     (case timers s of
        [] \<Rightarrow> s
      | (delay, exch, symb) # rest \<Rightarrow> reconnectCallback v exch symb (s\<lparr>timers := rest\<rparr>))"

fun run :: "variant \<Rightarrow> event list \<Rightarrow> 'v bridge \<Rightarrow> 'v bridge" where
  "run v [] s = s"
| "run v (e # es) s = run v es (step v e s)"

section \<open>Notions of the specification\<close>

text \<open>
  The invariant of the subscription registry: no key is left with an empty set of
  subscribers.
\<close>

definition no_empty_key :: "(string, string list) js_map \<Rightarrow> bool" where
  "no_empty_key subs = list_all (\<lambda>(k, users). users \<noteq> []) subs"

text \<open>The exchanges the \<^verbatim>\<open>switch\<close> of \<^verbatim>\<open>connectExchange\<close> has a case for.\<close>

definition supportedExchange :: "string \<Rightarrow> bool" where
  "supportedExchange exch =
     list_ex (lowerCaseIs exch) [''binance'', ''binance-testnet'', ''bybit'', ''bybit-testnet'']"

section \<open>Example data\<close>

text \<open>A finalized 1-minute candle as the handler of a binance BTCUSDT socket builds it.\<close>

definition btc :: "int \<Rightarrow> real \<Rightarrow> real \<Rightarrow> real \<Rightarrow> real \<Rightarrow> 'v \<Rightarrow> 'v candle" where
  "btc t o' h l c v =
     \<lparr>exchange = ''binance'', symbol = ''BTCUSDT'', timeframe = ''1m'', timestamp = t,
      open = o', high = h, low = l, close = c, volume = v\<rparr>"

text \<open>
  Five consecutive candles with closes 100, 101, 99, 102, 103 and volume 1 each. The volumes
  of the examples are small integers, which doubles add without rounding.
\<close>

definition five_candles :: "int candle list" where
  "five_candles =
     [btc 1700000000000 99 101 98 100 1, btc 1700000060000 100 102 100 101 1,
      btc 1700000120000 101 101 97 99 1, btc 1700000180000 99 103 99 102 1,
      btc 1700000240000 102 104 101 103 1]"

text \<open>A request body with its four fields present.\<close>

definition body :: "string \<Rightarrow> string \<Rightarrow> string \<Rightarrow> string \<Rightarrow> request" where
  "body e sy tf u =
     \<lparr>r_exchange = Some e, r_symbol = Some sy, r_timeframe = Some tf, r_userId = Some u\<rparr>"

text \<open>
  The scenario of the specification: a subscriber, the socket opens and is closed by the
  exchange, and the subscriber leaves before the reconnect timer runs out; and the same
  without the subscriber leaving.
\<close>

definition closed_then_unsubscribed :: "event list" where
  "closed_then_unsubscribed =
     [PostConnect (body ''binance'' ''BTCUSDT'' ''5m'' ''u1''), WsOpen 0, WsClose 0,
      PostDisconnect (body ''binance'' ''BTCUSDT'' ''5m'' ''u1'')]"

definition closed_still_subscribed :: "event list" where
  "closed_still_subscribed =
     [PostConnect (body ''binance'' ''BTCUSDT'' ''5m'' ''u1''), WsOpen 0, WsClose 0]"

text \<open>
  One user subscribed to two timeframes of one exchange and symbol, and the buffers after the
  handler of the first candle has run. Both subscriptions share the buffer
  \<^verbatim>\<open>u1-binance-BTCUSDT\<close>.
\<close>

definition one_and_five_minute :: "event list" where
  "one_and_five_minute =
     [PostConnect (body ''binance'' ''BTCUSDT'' ''1m'' ''u1''), WsOpen 0,
      PostConnect (body ''binance'' ''BTCUSDT'' ''5m'' ''u1'')]"

definition after_first_candle :: "int buffers" where
  "after_first_candle =
     fst (onCandle (five_candles ! 0)
            (userSubscriptions (run Aggregating one_and_five_minute (initial :: int bridge))) [])"

text \<open>
  The subscriber of one symbol leaves after its socket was closed by the exchange, while
  another symbol whose name starts with the first one's and a dash has a subscriber; then the
  reconnect timer runs out.
\<close>

definition stale_reconnect :: "event list" where
  "stale_reconnect =
     [PostConnect (body ''bybit'' ''BTCUSDT'' ''1m'' ''u1''), WsOpen 0,
      PostConnect (body ''bybit'' ''BTCUSDT-26DEC25'' ''1m'' ''u2''), WsOpen 1,
      WsClose 0, PostDisconnect (body ''bybit'' ''BTCUSDT'' ''1m'' ''u1''), TimerFires]"

text \<open>Two subscribers of one exchange and symbol, the last of them leaving.\<close>

definition two_then_one :: "event list" where
  "two_then_one =
     [PostConnect (body ''binance'' ''BTCUSDT'' ''1m'' ''u1''),
      PostConnect (body ''binance'' ''BTCUSDT'' ''5m'' ''u2''),
      PostDisconnect (body ''binance'' ''BTCUSDT'' ''1m'' ''u1'')]"

section \<open>The fold of a chunk\<close>

lemma timeframeToMinutes_pos: "timeframeToMinutes tf = Num n \<Longrightarrow> 0 < n"
  by (auto simp: timeframeToMinutes_def split: option.splits if_splits)

lemma tf5: "timeframeToMinutes ''5m'' = Num 5"
  by (simp add: timeframeToMinutes_def timeframe_map_def)

lemma tf1: "timeframeToMinutes ''1m'' = Num 1"
  by (simp add: timeframeToMinutes_def timeframe_map_def)

lemma math_max_Max: "math_max x xs = Max (set (x # xs))"
  by (simp only: math_max_def Max.set_eq_fold)

lemma math_min_Min: "math_min x xs = Min (set (x # xs))"
  by (simp only: math_min_def Min.set_eq_fold)

lemma foldl_volume: "foldl (\<lambda>sum c. sum + volume c) a cs = foldl (+) a (map volume cs)"
  by (simp add: foldl_map)

text \<open>
  Where the addition of the volumes is exact (associative, with 0 neutral), adding them to 0
  one after the other gives their sum in the usual sense. For doubles it gives the rounded
  sum of that order.
\<close>

lemma foldl_plus_exact: "foldl (+) a xs = a + sum_list (xs :: 'a::monoid_add list)"
  by (induction xs arbitrary: a) (simp_all add: add.assoc)

text \<open>
  With at least \<open>n\<close> candles in its argument, \<^const>\<open>convertToTargetTimeframe\<close> returns the
  derived candle of the newest \<open>n\<close>: its chunk is \<^verbatim>\<open>candles.slice(-minutes)\<close>.
\<close>

lemma convert_newest:
  assumes "timeframeToMinutes tf = Num n" and "n \<le> length cs"
  shows "convertToTargetTimeframe cs tf = Inr (Some (derived_candle (drop (length cs - n) cs) tf))"
proof -
  have pos: "0 < n" using assms(1) by (rule timeframeToMinutes_pos)
  define chunk where "chunk = drop (length cs - n) cs"
  have len: "length chunk = n" using assms(2) by (simp add: chunk_def)
  then obtain c0 rest where chunk: "chunk = c0 # rest" using pos by (cases chunk) auto
  have "convertToTargetTimeframe cs tf =
      Inr (Some \<lparr>exchange = exchange c0, symbol = symbol c0, timeframe = tf,
                 timestamp = timestamp c0, open = candle.open c0,
                 high = math_max (high c0) (map high rest),
                 low = math_min (low c0) (map low rest),
                 close = close (last (c0 # rest)),
                 volume = foldl (\<lambda>sum c. sum + volume c) 0 (c0 # rest)\<rparr>)"
    using assms pos chunk unfolding convertToTargetTimeframe_def chunk_def
    by (simp add: Let_def)
  also have "\<dots> = Inr (Some (derived_candle chunk tf))"
    unfolding derived_candle_def chunk foldl_volume
    by (simp add: math_max_Max math_min_Min del: foldl_Cons)
  finally show ?thesis by (simp add: chunk_def)
qed

text \<open>
  Claim C1. For a timeframe that requires \<open>n\<close> base candles and a buffer of exactly \<open>n\<close>
  candles, the fold returns a candle whose open is the open of the first candle, whose close
  is the close of the last, whose high is the maximum of the highs, whose low is the minimum
  of the lows, whose volume is the sum of the volumes (the volumes added to 0 in arrival
  order, in the addition of their type, which for the code is that of doubles), whose
  timestamp is the opening time of the first candle, and whose timeframe is the target
  timeframe.
\<close>

theorem convert_exact_chunk:
  assumes "timeframeToMinutes tf = Num n" and "length cs = n"
  shows "\<exists>d. convertToTargetTimeframe cs tf = Inr (Some d) \<and>
             candle.open d = candle.open (hd cs) \<and> close d = close (last cs) \<and>
             high d = Max (set (map high cs)) \<and> low d = Min (set (map low cs)) \<and>
             volume d = foldl (+) 0 (map volume cs) \<and> timestamp d = timestamp (hd cs) \<and>
             timeframe d = tf"
  using convert_newest[OF assms(1), of cs] assms(2) by (simp add: derived_candle_def)

text \<open>The example of the specification: five 1-minute candles folded into one 5m candle.\<close>

theorem convert_exact_chunk_witness:
  "timeframeToMinutes ''5m'' = Num 5 \<and> length five_candles = 5 \<and>
   (\<exists>d. convertToTargetTimeframe five_candles ''5m'' = Inr (Some d) \<and>
        candle.open d = 99 \<and> close d = 103 \<and> high d = 104 \<and> low d = 97 \<and> volume d = 5 \<and>
        timestamp d = 1700000000000 \<and> timeframe d = ''5m'')"
  using convert_exact_chunk[OF tf5, of five_candles]
  by (simp add: five_candles_def btc_def tf5)

section \<open>One step of the aggregation buffer\<close>

lemma length_cap: "0 < n \<Longrightarrow> length (cap n cs) \<le> n * 2"
  by (simp add: cap_def)

lemma buffered_update:
  "buffered (AList.update (bufferKey u e sy) b bufs) u e sy = candles b"
  by (simp add: buffered_def update_conv')

lemma cap_eq:
  "0 < n \<Longrightarrow>
   (if js_greater_twice (length p) (Num n)
    then slice_last (map_option (\<lambda>n. n * 2) (toNumber (Num n))) p else p) = cap n p"
  by (simp add: cap_def)

text \<open>
  \<^const>\<open>processCandle\<close> for a required count that is a number: the buffer is the old one
  with the candle pushed and the cap applied; with \<open>n\<close> or more candles in it the newest
  \<open>n\<close> are folded and the first \<open>n\<close> dropped.
\<close>

lemma processCandle_unfold:
  fixes bufs :: "('v::{plus,zero}) buffers"
  assumes tf: "timeframeToMinutes tf = Num n"
  shows "\<exists>b. processCandle c u tf bufs =
     (let key = bufferKey u (exchange c) (symbol c);
          capped = cap n (buffered bufs u (exchange c) (symbol c) @ [c])
      in if n \<le> length capped
         then (AList.update key (b\<lparr>candles := drop n capped\<rparr>) bufs,
               Inr (Some (derived_candle (drop (length capped - n) capped) tf)))
         else (AList.update key (b\<lparr>candles := capped\<rparr>) bufs, Inr None))"
proof -
  have pos: "0 < n" using tf by (rule timeframeToMinutes_pos)
  define key where "key = bufferKey u (exchange c) (symbol c)"
  define new where "new = (\<lparr>candles = [], targetTimeframe = tf\<rparr> :: 'v buffer)"
  define bufs1 where "bufs1 = (if \<not> has bufs key then AList.update key new bufs else bufs)"
  define buf where "buf = (case map_of bufs1 key of Some b \<Rightarrow> b | None \<Rightarrow> new)"
  define capped where "capped = cap n (candles buf @ [c])"
  have old: "candles buf = buffered bufs u (exchange c) (symbol c)"
    by (cases "map_of bufs key")
       (simp_all add: buf_def bufs1_def has_def update_conv' buffered_def key_def new_def)
  have upd: "AList.update key x bufs1 = AList.update key x bufs" for x
    by (simp add: bufs1_def)
  have unfolded: "processCandle c u tf bufs =
      (if n \<le> length capped then
         (case convertToTargetTimeframe capped tf of
            Inl e \<Rightarrow> (AList.update key (buf\<lparr>candles := capped\<rparr>) bufs1, Inl e)
          | Inr None \<Rightarrow> (AList.update key (buf\<lparr>candles := capped\<rparr>) bufs1, Inr None)
          | Inr (Some cc) \<Rightarrow> (AList.update key (buf\<lparr>candles := drop n capped\<rparr>) bufs1,
                               Inr (Some cc)))
       else (AList.update key (buf\<lparr>candles := capped\<rparr>) bufs1, Inr None))"
    unfolding processCandle_def Let_def tf cap_eq[OF pos]
    unfolding key_def[symmetric] new_def[symmetric] bufs1_def[symmetric] buf_def[symmetric]
      capped_def[symmetric]
    by (simp split: sum.splits option.splits)
  show ?thesis
  proof (cases "n \<le> length capped")
    case True
    then show ?thesis
      unfolding unfolded Let_def key_def[symmetric] old[symmetric] capped_def[symmetric]
      by (intro exI[of _ buf]) (simp add: convert_newest[OF tf True] upd)
  next
    case False
    then show ?thesis
      unfolding unfolded Let_def key_def[symmetric] old[symmetric] capped_def[symmetric]
      by (intro exI[of _ buf]) (simp add: upd)
  qed
qed

lemma processCandle_sent:
  assumes "timeframeToMinutes tf = Num n"
  shows "snd (processCandle c u tf bufs) =
     (let capped = cap n (buffered bufs u (exchange c) (symbol c) @ [c])
      in if n \<le> length capped
         then Inr (Some (derived_candle (drop (length capped - n) capped) tf))
         else Inr None)"
proof -
  from processCandle_unfold[OF assms, of c u bufs] obtain b where
    "processCandle c u tf bufs =
     (let key = bufferKey u (exchange c) (symbol c);
          capped = cap n (buffered bufs u (exchange c) (symbol c) @ [c])
      in if n \<le> length capped
         then (AList.update key (b\<lparr>candles := drop n capped\<rparr>) bufs,
               Inr (Some (derived_candle (drop (length capped - n) capped) tf)))
         else (AList.update key (b\<lparr>candles := capped\<rparr>) bufs, Inr None))" ..
  then show ?thesis by (simp add: Let_def)
qed

lemma processCandle_buffered:
  assumes "timeframeToMinutes tf = Num n"
  shows "buffered (fst (processCandle c u tf bufs)) u (exchange c) (symbol c) =
     (let capped = cap n (buffered bufs u (exchange c) (symbol c) @ [c])
      in if n \<le> length capped then drop n capped else capped)"
proof -
  from processCandle_unfold[OF assms, of c u bufs] obtain b where
    "processCandle c u tf bufs =
     (let key = bufferKey u (exchange c) (symbol c);
          capped = cap n (buffered bufs u (exchange c) (symbol c) @ [c])
      in if n \<le> length capped
         then (AList.update key (b\<lparr>candles := drop n capped\<rparr>) bufs,
               Inr (Some (derived_candle (drop (length capped - n) capped) tf)))
         else (AList.update key (b\<lparr>candles := capped\<rparr>) bufs, Inr None))" ..
  then show ?thesis by (simp add: Let_def buffered_update)
qed

lemma processCandle_bound:
  assumes "timeframeToMinutes tf = Num n"
  shows "length (buffered (fst (processCandle c u tf bufs)) u (exchange c) (symbol c)) \<le> 2 * n"
proof -
  have pos: "0 < n" using assms by (rule timeframeToMinutes_pos)
  have "length (cap n (buffered bufs u (exchange c) (symbol c) @ [c])) \<le> n * 2"
    using pos by (rule length_cap)
  then show ?thesis
    unfolding processCandle_buffered[OF assms] Let_def by (simp split: if_splits) linarith
qed

text \<open>
  Where the required count is a number \<open>n\<close>, the cap holds: after every call that
  returns, from whatever buffer it started, the buffer has at most \<open>2n\<close> candles.
\<close>

lemma bounded_for_a_number:
  assumes tf: "timeframeToMinutes tf = Num n"
    and ne: "cs \<noteq> []"
    and same: "\<forall>c \<in> set cs. exchange c = exch \<and> symbol c = symb"
  shows "length (buffered (processCandles cs u tf bufs) u exch symb) \<le> 2 * n"
  using ne same
proof (induction cs arbitrary: bufs)
  case Nil
  then show ?case by simp
next
  case (Cons c cs)
  show ?case
  proof (cases "cs = []")
    case True
    have "exchange c = exch" "symbol c = symb" using Cons.prems(2) by simp_all
    with processCandle_bound[OF tf, of c u bufs] True show ?thesis by simp
  next
    case False
    have "\<forall>c \<in> set cs. exchange c = exch \<and> symbol c = symb" using Cons.prems(2) by simp
    from Cons.IH[OF False this] show ?thesis by simp
  qed
qed

text \<open>
  The index 2 that the message handler reads from \<^verbatim>\<open>subKey.split('-')\<close> is in range for
  every key that passed its prefix test. It is the timeframe of the key only when neither
  the exchange nor the symbol has a dash in it.
\<close>

lemma split_on_nonempty: "split_on d xs \<noteq> []"
  by (induction xs) (auto split: list.splits)

lemma length_split_on: "length (split_on d xs) = Suc (count_list xs d)"
proof (induction xs)
  case Nil
  then show ?case by simp
next
  case (Cons c cs)
  then show ?case
    using split_on_nonempty[of d cs] by (cases "split_on d cs") auto
qed

lemma count_list_append: "count_list (xs @ ys) d = count_list xs d + count_list ys d"
  by (induction xs) auto

lemma third_part_in_range:
  assumes "startsWith k (exch @ ''-'' @ symb @ ''-'')"
  shows "3 \<le> length (split_on CHR ''-'' k)"
proof -
  from assms obtain t where "k = (exch @ ''-'' @ symb @ ''-'') @ t"
    by (metis append_take_drop_id startsWith_def)
  then have "2 \<le> count_list k CHR ''-''"
    by (simp add: count_list_append)
  then show ?thesis by (simp add: length_split_on)
qed

lemma third_part_testnet:
  "third_part (split_on CHR ''-'' (subKey ''binance-testnet'' ''BTCUSDT'' ''5m'')) = ''BTCUSDT''"
  by (simp add: subKey_def)

section \<open>Which candles are folded\<close>

lemmas eval_defs = body_def initial_def connect_def disconnect_def invalid_def subKey_def
  subPrefix_def connKey_def has_def users_of_def set_add_def set_delete_def connectExchange_def
  wsUrl_def lowerCaseIs_def ascii_lower_def onOpen_def onClose_def reconnectCallback_def
  hasSubscribers_def hasOtherSubs_def ws_close_def startsWith_def Let_def bufferKey_def

lemmas candle_defs = processCandle_def convertToTargetTimeframe_def timeframeToMinutes_def
  timeframe_map_def math_max_def math_min_def five_candles_def btc_def

text \<open>
  The buffer key has no timeframe in it, so a user subscribed to 1m and to 5m of one symbol
  has one buffer for both. After the handler of the first candle has run, the buffer holds
  that candle, pushed for the 5m subscription.
\<close>

lemma after_first_candle_buffers:
  "after_first_candle =
     [(''u1-binance-BTCUSDT'', \<lparr>candles = [five_candles ! 0], targetTimeframe = ''1m''\<rparr>)]"
  by (simp add: after_first_candle_def one_and_five_minute_def eval_defs candle_defs)

text \<open>
  Claim C2, at the failing input. The second candle is processed for the 1m subscription
  (one base candle) while the buffer holds the first. With the second pushed the buffer has
  two candles. The claim has the oldest one folded and removed. The code folds the newest
  one, \<^verbatim>\<open>candles.slice(-minutes)\<close>, and removes the first one,
  \<^verbatim>\<open>buffer.candles.slice(requiredCandles)\<close>: the candle sent is the derived candle of the
  second candle, not of the first, and the buffer the call leaves holds the second candle,
  which was folded, while the first was dropped without ever being folded. The source's
  comment on the removal says that the used candles are removed.
\<close>

theorem fold_and_removal_disagree:
  "buffered after_first_candle ''u1'' ''binance'' ''BTCUSDT'' = [five_candles ! 0] \<and>
   timeframeToMinutes ''1m'' = Num 1 \<and>
   snd (processCandle (five_candles ! 1) ''u1'' ''1m'' after_first_candle) =
     Inr (Some (derived_candle [five_candles ! 1] ''1m'')) \<and>
   derived_candle [five_candles ! 1] ''1m'' \<noteq> derived_candle [five_candles ! 0] ''1m'' \<and>
   buffered (fst (processCandle (five_candles ! 1) ''u1'' ''1m'' after_first_candle))
      ''u1'' ''binance'' ''BTCUSDT'' = [five_candles ! 1]"
  unfolding after_first_candle_buffers
  by (simp add: buffered_def bufferKey_def has_def Let_def derived_candle_def candle_defs)

section \<open>Timeframes outside the table\<close>

text \<open>
  A timeframe that is neither in the table nor the name of a member of
  \<^verbatim>\<open>Object.prototype\<close> counts as one base candle, and every candle processed for it is
  sent at once, relabelled with that timeframe (its volume being \<^verbatim>\<open>0 + volume\<close>).
\<close>

lemma unsupported_timeframe_is_one:
  assumes "tf \<notin> set [''1m'', ''5m'', ''15m'', ''30m'', ''1h'', ''4h'']"
    and "tf \<notin> set object_prototype_members"
  shows "timeframeToMinutes tf = Num 1"
  using assms by (simp add: timeframeToMinutes_def timeframe_map_def)

lemma derived_single: "derived_candle [c] tf = c\<lparr>timeframe := tf, volume := 0 + volume c\<rparr>"
  by (simp add: derived_candle_def)

lemma processCandle_one:
  assumes "timeframeToMinutes tf = Num 1"
  shows "snd (processCandle c u tf bufs) =
           Inr (Some (c\<lparr>timeframe := tf, volume := 0 + volume c\<rparr>))"
proof -
  define old where "old = buffered bufs u (exchange c) (symbol c)"
  have "drop (length (cap 1 (old @ [c])) - 1) (cap 1 (old @ [c])) = [c]"
    by (simp add: cap_def)
  moreover have "1 \<le> length (cap 1 (old @ [c]))" by (simp add: cap_def)
  ultimately show ?thesis
    by (simp add: processCandle_sent[OF assms] Let_def old_def[symmetric] derived_single)
qed

text \<open>
  For the name of a member of \<^verbatim>\<open>Object.prototype\<close> the required count is not a number:
  no comparison with it holds, so nothing is ever sent and the buffer grows by every candle.
\<close>

lemma inherited_constructor: "timeframeToMinutes ''constructor'' = Inherited ''constructor''"
  by (simp add: timeframeToMinutes_def timeframe_map_def object_prototype_members_def)

lemma processCandle_inherited:
  assumes "timeframeToMinutes tf = Inherited x"
  shows "snd (processCandle c u tf bufs) = Inr None"
    and "buffered (fst (processCandle c u tf bufs)) u (exchange c) (symbol c) =
           buffered bufs u (exchange c) (symbol c) @ [c]"
  using assms
  by (cases "map_of bufs (bufferKey u (exchange c) (symbol c))";
      simp add: processCandle_def Let_def has_def update_conv' buffered_def)+

lemma processCandles_inherited:
  assumes "timeframeToMinutes tf = Inherited x"
    and "\<forall>c \<in> set cs. exchange c = exch \<and> symbol c = symb"
  shows "buffered (processCandles cs u tf bufs) u exch symb = buffered bufs u exch symb @ cs"
  using assms(2)
proof (induction cs arbitrary: bufs)
  case Nil
  then show ?case by simp
next
  case (Cons c cs)
  have c: "exchange c = exch" "symbol c = symb" using Cons.prems by simp_all
  have "\<forall>c \<in> set cs. exchange c = exch \<and> symbol c = symb" using Cons.prems by simp
  from Cons.IH[OF this] processCandle_inherited(2)[OF assms(1), of c u bufs] c
  show ?case by simp
qed

text \<open>
  Claim C9, at the failing input: the timeframe \<^verbatim>\<open>constructor\<close> is outside the supported
  set, yet its conversion is not 1 but the inherited member; the first candle processed for
  it is not sent, and after five candles all five are in the buffer.
\<close>

theorem inherited_timeframe_never_delivers:
  "timeframeToMinutes ''constructor'' = Inherited ''constructor'' \<and>
   snd (processCandle (five_candles ! 0) ''u1'' ''constructor'' []) = Inr None \<and>
   buffered (processCandles five_candles ''u1'' ''constructor'' []) ''u1'' ''binance'' ''BTCUSDT'' =
     five_candles"
  using processCandle_inherited(1)[OF inherited_constructor, of "five_candles ! 0" "''u1''" "[]"]
    processCandles_inherited[OF inherited_constructor,
      of five_candles "''binance''" "''BTCUSDT''" "''u1''" "[]"]
  by (simp add: inherited_constructor five_candles_def btc_def buffered_def)

text \<open>
  Claim C5, at the failing input: a subscriber whose timeframe is \<^verbatim>\<open>constructor\<close>. The
  count the claim gives an unsupported timeframe is 1, so its buffer should never hold more
  than 2 candles. The cap \<^verbatim>\<open>length > requiredCandles * 2\<close> compares with NaN and never
  cuts: after five candles the buffer holds 5, after ten it holds 10.
\<close>

theorem inherited_timeframe_buffer_grows:
  "length (buffered (processCandles five_candles ''u1'' ''constructor'' [])
            ''u1'' ''binance'' ''BTCUSDT'') = 5 \<and>
   length (buffered (processCandles (five_candles @ five_candles) ''u1'' ''constructor'' [])
            ''u1'' ''binance'' ''BTCUSDT'') = 10"
  using processCandles_inherited[OF inherited_constructor,
      of five_candles "''binance''" "''BTCUSDT''" "''u1''" "[]"]
    processCandles_inherited[OF inherited_constructor,
      of "five_candles @ five_candles" "''binance''" "''BTCUSDT''" "''u1''" "[]"]
  by (simp add: five_candles_def btc_def buffered_def)

section \<open>The subscription registry\<close>

lemma wsUrl_None_iff: "wsUrl exch symb = None \<longleftrightarrow> \<not> supportedExchange exch"
  by (simp add: wsUrl_def supportedExchange_def)

lemma connectExchange_frame:
  "userSubscriptions (connectExchange v exch symb s) = userSubscriptions s"
  "activeConnections (connectExchange v exch symb s) = activeConnections s"
  "candleBuffers (connectExchange v exch symb s) = candleBuffers s"
  "timers (connectExchange v exch symb s) = timers s"
  by (simp_all add: connectExchange_def split: option.splits)

lemma connectExchange_unsupported:
  "\<not> supportedExchange exch \<Longrightarrow> connectExchange v exch symb s = s"
  using wsUrl_None_iff[of exch symb] by (simp add: connectExchange_def)

lemma users_of_update: "users_of (AList.update k us subs) k = us"
  by (simp add: users_of_def update_conv')

lemma users_of_absent: "\<not> has subs k \<Longrightarrow> users_of subs k = []"
  by (simp add: has_def users_of_def)

text \<open>What \<^verbatim>\<open>/connect\<close> and \<^verbatim>\<open>/disconnect\<close> do to the registry.\<close>

lemma connect_subs:
  assumes "\<not> invalid req"
  shows "userSubscriptions (fst (connect v req s)) =
     AList.update (subKey (str (r_exchange req)) (str (r_symbol req)) (str (r_timeframe req)))
       (set_add (users_of (userSubscriptions s)
                   (subKey (str (r_exchange req)) (str (r_symbol req)) (str (r_timeframe req))))
                (str (r_userId req)))
       (userSubscriptions s)"
  using assms
  by (simp add: connect_def Let_def connectExchange_frame users_of_update users_of_absent)

lemma connect_response:
  assumes "\<not> invalid req"
  shows "snd (connect v req s) =
     Connected (length (set_add (users_of (userSubscriptions s)
                   (subKey (str (r_exchange req)) (str (r_symbol req)) (str (r_timeframe req))))
                (str (r_userId req))))"
  using assms by (simp add: connect_def Let_def users_of_update users_of_absent)

lemma connect_invalid: "invalid req \<Longrightarrow> connect v req s = (s, Status400)"
  by (simp add: connect_def)

lemma disconnect_invalid: "invalid req \<Longrightarrow> disconnect v req s = (s, Status400)"
  by (simp add: disconnect_def)

lemma disconnect_subs:
  assumes "\<not> invalid req"
  shows "userSubscriptions (fst (disconnect v req s)) =
     (let key = subKey (str (r_exchange req)) (str (r_symbol req)) (str (r_timeframe req));
          users = set_delete (users_of (userSubscriptions s) key) (str (r_userId req))
      in if has (userSubscriptions s) key
         then if users = [] then AList.delete key (userSubscriptions s)
              else AList.update key users (userSubscriptions s)
         else userSubscriptions s)"
  using assms
  by (cases v) (simp_all add: disconnect_def Let_def delete_update_same split: option.splits)

lemma no_empty_update:
  "no_empty_key subs \<Longrightarrow> users \<noteq> [] \<Longrightarrow> no_empty_key (AList.update k users subs)"
  unfolding no_empty_key_def by (induction subs) auto

lemma no_empty_delete: "no_empty_key subs \<Longrightarrow> no_empty_key (AList.delete k subs)"
  unfolding no_empty_key_def by (induction subs) auto

lemma set_add_nonempty: "set_add us u \<noteq> []"
  by (auto simp: set_add_def)

lemma connect_no_empty:
  "no_empty_key (userSubscriptions s) \<Longrightarrow> no_empty_key (userSubscriptions (fst (connect v req s)))"
  by (cases "invalid req")
     (simp_all add: connect_invalid connect_subs no_empty_update set_add_nonempty)

lemma disconnect_no_empty:
  "no_empty_key (userSubscriptions s) \<Longrightarrow>
   no_empty_key (userSubscriptions (fst (disconnect v req s)))"
  by (cases "invalid req")
     (simp_all add: disconnect_invalid disconnect_subs Let_def no_empty_update no_empty_delete)

lemma reconnectCallback_subs:
  "userSubscriptions (reconnectCallback v exch symb s) = userSubscriptions s"
  by (simp add: reconnectCallback_def connectExchange_frame)

lemma step_no_empty:
  "no_empty_key (userSubscriptions s) \<Longrightarrow> no_empty_key (userSubscriptions (step v e s))"
proof (cases e)
  case (PostConnect req)
  then show "no_empty_key (userSubscriptions s) \<Longrightarrow> ?thesis" by (simp add: connect_no_empty)
next
  case (PostDisconnect req)
  then show "no_empty_key (userSubscriptions s) \<Longrightarrow> ?thesis" by (simp add: disconnect_no_empty)
next
  case (WsOpen i)
  then show "no_empty_key (userSubscriptions s) \<Longrightarrow> ?thesis" by (simp add: onOpen_def Let_def)
next
  case (WsClose i)
  then show "no_empty_key (userSubscriptions s) \<Longrightarrow> ?thesis" by (simp add: onClose_def Let_def)
next
  case TimerFires
  then show "no_empty_key (userSubscriptions s) \<Longrightarrow> ?thesis"
    by (simp add: reconnectCallback_subs split: list.splits prod.splits)
qed

lemma run_no_empty:
  "no_empty_key (userSubscriptions s) \<Longrightarrow> no_empty_key (userSubscriptions (run v es s))"
  by (induction es arbitrary: s) (simp_all add: step_no_empty)

lemma no_empty_lookup:
  assumes "no_empty_key subs" and "has subs k"
  shows "users_of subs k \<noteq> []"
proof -
  from assms(2) obtain users where m: "map_of subs k = Some users" by (auto simp: has_def)
  then have "(k, users) \<in> set subs" by (rule map_of_SomeD)
  with assms(1) have "users \<noteq> []" by (auto simp: no_empty_key_def list_all_iff)
  with m show ?thesis by (simp add: users_of_def)
qed

lemma run_initial_no_empty: "no_empty_key (userSubscriptions (run v es initial))"
proof -
  have "no_empty_key (userSubscriptions initial)" by (simp add: no_empty_key_def initial_def)
  then show ?thesis by (rule run_no_empty)
qed

text \<open>
  Claim C6. In every state reached from the initial one by any sequence of events (subscribe
  and unsubscribe requests, and the socket and timer events between them), no entry
  of the subscription registry has an empty set of subscribers, and no key that the registry
  has maps to an empty set: \<^verbatim>\<open>/connect\<close> adds the user to every set it creates, and
  \<^verbatim>\<open>/disconnect\<close> deletes the key whose set it has emptied.
\<close>

theorem registry_has_no_empty_key:
  "no_empty_key (userSubscriptions (run v es (initial :: 'v bridge))) \<and>
   (\<forall>k. has (userSubscriptions (run v es (initial :: 'v bridge))) k \<longrightarrow>
        users_of (userSubscriptions (run v es (initial :: 'v bridge))) k \<noteq> [])"
  by (simp add: run_initial_no_empty no_empty_lookup)

theorem registry_has_no_empty_key_witness:
  "no_empty_key (userSubscriptions (run PassThrough two_then_one initial)) \<and>
   userSubscriptions (run PassThrough two_then_one initial) = [(''binance-BTCUSDT-5m'', [''u2''])] \<and>
   users_of (userSubscriptions (run PassThrough two_then_one initial)) ''binance-BTCUSDT-5m'' \<noteq> []"
  using registry_has_no_empty_key[of PassThrough two_then_one]
  by (simp add: two_then_one_def eval_defs)

text \<open>
  Claim C10. Subscribing with a user id that is already in the set of the key leaves the
  registry as it is and answers with the size the set already had; hence a second
  \<^verbatim>\<open>/connect\<close> with the same body leaves the registry as the first one left it and answers
  with the same count.
\<close>

theorem subscribe_idempotent:
  "(\<not> invalid req \<and>
    str (r_userId req) \<in> set (users_of (userSubscriptions s)
       (subKey (str (r_exchange req)) (str (r_symbol req)) (str (r_timeframe req)))) \<longrightarrow>
      userSubscriptions (fst (connect v req s)) = userSubscriptions s \<and>
      snd (connect v req s) = Connected (length (users_of (userSubscriptions s)
       (subKey (str (r_exchange req)) (str (r_symbol req)) (str (r_timeframe req)))))) \<and>
   userSubscriptions (fst (connect v req (fst (connect v req s)))) =
     userSubscriptions (fst (connect v req s)) \<and>
   snd (connect v req (fst (connect v req s))) = snd (connect v req s)"
proof -
  define key where "key = subKey (str (r_exchange req)) (str (r_symbol req)) (str (r_timeframe req))"
  define u where "u = str (r_userId req)"
  have present: "userSubscriptions (fst (connect v req t)) = userSubscriptions t \<and>
      snd (connect v req t) = Connected (length (users_of (userSubscriptions t) key))"
    if valid: "\<not> invalid req" and mem: "u \<in> set (users_of (userSubscriptions t) key)" for t
  proof -
    from mem have "map_of (userSubscriptions t) key = Some (users_of (userSubscriptions t) key)"
      by (cases "map_of (userSubscriptions t) key") (auto simp: users_of_def)
    then have "AList.update key (users_of (userSubscriptions t) key) (userSubscriptions t) =
        userSubscriptions t" by (rule update_triv)
    moreover have "set_add (users_of (userSubscriptions t) key) u = users_of (userSubscriptions t) key"
      using mem by (simp add: set_add_def)
    ultimately show ?thesis
      using valid by (simp add: connect_subs connect_response key_def[symmetric] u_def[symmetric])
  qed
  have twice: "userSubscriptions (fst (connect v req (fst (connect v req s)))) =
        userSubscriptions (fst (connect v req s)) \<and>
      snd (connect v req (fst (connect v req s))) = snd (connect v req s)"
  proof (cases "invalid req")
    case True
    then show ?thesis by (simp add: connect_invalid)
  next
    case False
    have after: "users_of (userSubscriptions (fst (connect v req s))) key =
        set_add (users_of (userSubscriptions s) key) u"
      using False by (simp add: connect_subs key_def[symmetric] u_def[symmetric] users_of_update)
    then have "u \<in> set (users_of (userSubscriptions (fst (connect v req s))) key)"
      by (simp add: set_add_def)
    from present[OF False this] after False show ?thesis
      by (simp add: connect_response key_def[symmetric] u_def[symmetric])
  qed
  from present[of s] twice show ?thesis
    unfolding key_def u_def by blast
qed

theorem subscribe_idempotent_witness:
  "\<not> invalid (body ''binance'' ''BTCUSDT'' ''5m'' ''u1'') \<and>
   snd (connect PassThrough (body ''binance'' ''BTCUSDT'' ''5m'' ''u1'') initial) = Connected 1 \<and>
   snd (connect PassThrough (body ''binance'' ''BTCUSDT'' ''5m'' ''u1'')
          (fst (connect PassThrough (body ''binance'' ''BTCUSDT'' ''5m'' ''u1'') initial))) =
     Connected 1 \<and>
   userSubscriptions (fst (connect PassThrough (body ''binance'' ''BTCUSDT'' ''5m'' ''u1'')
          (fst (connect PassThrough (body ''binance'' ''BTCUSDT'' ''5m'' ''u1'') initial)))) =
     [(''binance-BTCUSDT-5m'', [''u1''])]"
  using subscribe_idempotent[of "body ''binance'' ''BTCUSDT'' ''5m'' ''u1''" initial PassThrough]
  by (simp add: eval_defs)


section \<open>Validation\<close>

text \<open>
  A request with an empty or missing field is answered with status 400 and changes nothing
  (\<open>connect_invalid\<close>, \<open>disconnect_invalid\<close>).

  Claim C7, at the failing input: a subscribe request with all fields present that names the
  exchange \<^verbatim>\<open>kraken\<close>, for which the \<^verbatim>\<open>switch\<close> has no case. The claim has it
  answered with a validation error and the state unchanged. \<^verbatim>\<open>/connect\<close> registers the
  subscriber first, \<^verbatim>\<open>connectExchange\<close> logs the unsupported exchange and returns, and
  the request is answered as a success with the subscriber count 1.
\<close>

theorem unsupported_exchange_answers_success:
  "\<not> supportedExchange ''kraken'' \<and>
   connect PassThrough (body ''kraken'' ''BTCUSDT'' ''1m'' ''u1'') initial =
     (initial\<lparr>userSubscriptions := [(''kraken-BTCUSDT-1m'', [''u1''])]\<rparr>, Connected 1) \<and>
   initial\<lparr>userSubscriptions := [(''kraken-BTCUSDT-1m'', [''u1''])]\<rparr> \<noteq> initial"
  by (simp add: eval_defs supportedExchange_def)

section \<open>Reconnection\<close>

text \<open>
  The \<^verbatim>\<open>close\<close> handler sets a timer of 5000 ms and decides nothing; the callback scans
  the subscriptions of the state in which it runs. In the test of the specification the
  subscriber leaves between the close and the timer, and the timer makes no socket; had the
  subscriber stayed, it would make one.
\<close>

lemma closed_then_unsubscribed_state:
  "run PassThrough closed_then_unsubscribed initial =
     \<lparr>userSubscriptions = [], activeConnections = [], candleBuffers = [],
      sockets = [\<lparr>ws_exchange = ''binance'', ws_symbol = ''BTCUSDT'',
                  ws_url = KlineStream ''wss://fstream.binance.com'' ''BTCUSDT'',
                  readyState = CLOSED\<rparr>],
      timers = [(5000, ''binance'', ''BTCUSDT'')]\<rparr>"
  by (simp add: closed_then_unsubscribed_def eval_defs)

lemma closed_still_subscribed_state:
  "run PassThrough closed_still_subscribed initial =
     \<lparr>userSubscriptions = [(''binance-BTCUSDT-5m'', [''u1''])], activeConnections = [],
      candleBuffers = [],
      sockets = [\<lparr>ws_exchange = ''binance'', ws_symbol = ''BTCUSDT'',
                  ws_url = KlineStream ''wss://fstream.binance.com'' ''BTCUSDT'',
                  readyState = CLOSED\<rparr>],
      timers = [(5000, ''binance'', ''BTCUSDT'')]\<rparr>"
  by (simp add: closed_still_subscribed_def eval_defs)

lemma timer_after_unsubscribe_makes_no_socket:
  "map readyState (sockets (step PassThrough TimerFires
     (run PassThrough closed_then_unsubscribed initial))) = [CLOSED] \<and>
   map readyState (sockets (step PassThrough TimerFires
     (run PassThrough closed_still_subscribed initial))) = [CLOSED, CONNECTING]"
  unfolding closed_then_unsubscribed_state closed_still_subscribed_state
  by (simp add: eval_defs)

text \<open>
  Claim C8, at the failing input. \<^verbatim>\<open>u1\<close> subscribes to bybit BTCUSDT and \<^verbatim>\<open>u2\<close> to
  bybit BTCUSDT-26DEC25; the exchange closes the socket of BTCUSDT, and \<^verbatim>\<open>u1\<close>
  unsubscribes before the timer runs out. When it does, no subscriber holds interest in
  (bybit, BTCUSDT), and the claim has no connection attempt made. The callback's scan
  \<^verbatim>\<open>subKey.startsWith('bybit-BTCUSDT-')\<close> passes for the key
  \<^verbatim>\<open>bybit-BTCUSDT-26DEC25-1m\<close> of the other pair, and \<^verbatim>\<open>connectExchange\<close> makes a new
  socket for BTCUSDT.
\<close>

theorem timer_reconnects_without_subscriber:
  "userSubscriptions (run PassThrough (butlast stale_reconnect) initial) =
     [(''bybit-BTCUSDT-26DEC25-1m'', [''u2''])] \<and>
   timers (run PassThrough (butlast stale_reconnect) initial) = [(5000, ''bybit'', ''BTCUSDT'')] \<and>
   map (\<lambda>w. (ws_exchange w, ws_symbol w, readyState w))
     (sockets (run PassThrough (butlast stale_reconnect) initial)) =
     [(''bybit'', ''BTCUSDT'', CLOSED), (''bybit'', ''BTCUSDT-26DEC25'', OPEN)] \<and>
   last stale_reconnect = TimerFires \<and>
   map (\<lambda>w. (ws_exchange w, ws_symbol w, readyState w))
     (sockets (run PassThrough stale_reconnect initial)) =
     [(''bybit'', ''BTCUSDT'', CLOSED), (''bybit'', ''BTCUSDT-26DEC25'', OPEN),
      (''bybit'', ''BTCUSDT'', CONNECTING)]"
  by (simp add: stale_reconnect_def eval_defs)

section \<open>One connection per key\<close>

text \<open>
  Claim C3, at the failing input. Two subscribe requests for one exchange and symbol arrive
  before the first socket has opened. \<^verbatim>\<open>connectExchange\<close> looks the key up in
  \<^verbatim>\<open>activeConnections\<close>, where a socket is entered only by its \<^verbatim>\<open>open\<close> handler, so
  the second request makes a second socket for the same stream. Both open; the registry
  knows the second only.
\<close>

theorem duplicate_socket_while_connecting:
  "map (\<lambda>w. (ws_exchange w, ws_symbol w, readyState w))
     (sockets (run PassThrough
        [PostConnect (body ''binance'' ''BTCUSDT'' ''1m'' ''u1''),
         PostConnect (body ''binance'' ''BTCUSDT'' ''5m'' ''u2'')] initial)) =
     [(''binance'', ''BTCUSDT'', CONNECTING), (''binance'', ''BTCUSDT'', CONNECTING)] \<and>
   map (\<lambda>w. (ws_exchange w, ws_symbol w, readyState w))
     (sockets (run PassThrough
        [PostConnect (body ''binance'' ''BTCUSDT'' ''1m'' ''u1''),
         PostConnect (body ''binance'' ''BTCUSDT'' ''5m'' ''u2''), WsOpen 0, WsOpen 1] initial)) =
     [(''binance'', ''BTCUSDT'', OPEN), (''binance'', ''BTCUSDT'', OPEN)] \<and>
   activeConnections (run PassThrough
        [PostConnect (body ''binance'' ''BTCUSDT'' ''1m'' ''u1''),
         PostConnect (body ''binance'' ''BTCUSDT'' ''5m'' ''u2''), WsOpen 0, WsOpen 1] initial) =
     [(''binance-BTCUSDT'', 1)]"
  by (simp add: eval_defs)

section \<open>Releasing a connection\<close>

text \<open>
  Claim C4, at the failing input. \<^verbatim>\<open>u1\<close> is the only subscriber of bybit BTCUSDT and
  \<^verbatim>\<open>u2\<close> the only one of bybit BTCUSDT-26DEC25. When \<^verbatim>\<open>u1\<close> unsubscribes, the scan
  for other subscriptions finds the key \<^verbatim>\<open>bybit-BTCUSDT-26DEC25-1m\<close>, which starts with
  \<^verbatim>\<open>bybit-BTCUSDT-\<close>: the connection of BTCUSDT stays registered and its socket open,
  with no subscriber left for it.
\<close>

theorem prefix_scan_keeps_connection:
  "userSubscriptions (run PassThrough
      [PostConnect (body ''bybit'' ''BTCUSDT'' ''1m'' ''u1''), WsOpen 0,
       PostConnect (body ''bybit'' ''BTCUSDT-26DEC25'' ''1m'' ''u2''), WsOpen 1,
       PostDisconnect (body ''bybit'' ''BTCUSDT'' ''1m'' ''u1'')] initial) =
     [(''bybit-BTCUSDT-26DEC25-1m'', [''u2''])] \<and>
   activeConnections (run PassThrough
      [PostConnect (body ''bybit'' ''BTCUSDT'' ''1m'' ''u1''), WsOpen 0,
       PostConnect (body ''bybit'' ''BTCUSDT-26DEC25'' ''1m'' ''u2''), WsOpen 1,
       PostDisconnect (body ''bybit'' ''BTCUSDT'' ''1m'' ''u1'')] initial) =
     [(''bybit-BTCUSDT'', 0), (''bybit-BTCUSDT-26DEC25'', 1)] \<and>
   map (\<lambda>w. (ws_exchange w, ws_symbol w, readyState w))
     (sockets (run PassThrough
      [PostConnect (body ''bybit'' ''BTCUSDT'' ''1m'' ''u1''), WsOpen 0,
       PostConnect (body ''bybit'' ''BTCUSDT-26DEC25'' ''1m'' ''u2''), WsOpen 1,
       PostDisconnect (body ''bybit'' ''BTCUSDT'' ''1m'' ''u1'')] initial)) =
     [(''bybit'', ''BTCUSDT'', OPEN), (''bybit'', ''BTCUSDT-26DEC25'', OPEN)]"
  by (simp add: eval_defs)

end
